theory Spec2Isabelle
  imports Complex_Main "HOL-Library.AList"
begin

section \<open>Strings and the string-to-number grammar of the runtime\<close>

text \<open>
  A JavaScript string is modelled as a \<^typ>\<open>string\<close>, one \<^typ>\<open>char\<close> per code unit
  (code units above U+00FF are outside the model). \<open>length\<close> is then the \<open>.length\<close> of
  the source.
\<close>

definition isWhiteSpace :: "char \<Rightarrow> bool" where
  \<comment> \<open>WhiteSpace and LineTerminator code units below U+0100: TAB, LF, VT, FF, CR, SP, NBSP.\<close>
  "isWhiteSpace c =
     (c \<in> set [CHR 0x09, CHR 0x0A, CHR 0x0B, CHR 0x0C, CHR 0x0D, CHR 0x20, CHR 0xA0])"

definition trim :: "string \<Rightarrow> string" where
  \<comment> \<open>\<open>String.prototype.trim\<close>\<close>
  "trim s = rev (dropWhile isWhiteSpace (rev (dropWhile isWhiteSpace s)))"

definition toLowerChar :: "char \<Rightarrow> char" where
  "toLowerChar c =
     (case map_of (zip ''ABCDEFGHIJKLMNOPQRSTUVWXYZ'' ''abcdefghijklmnopqrstuvwxyz'') c of
        Some l \<Rightarrow> l
      | None \<Rightarrow> c)"

definition toLowerCase :: "string \<Rightarrow> string" where
  \<comment> \<open>\<open>String.prototype.toLowerCase\<close> on the letters A to Z; other code units are kept.\<close>
  "toLowerCase s = map toLowerChar s"

definition includesStr :: "string \<Rightarrow> char \<Rightarrow> bool" where
  \<comment> \<open>\<open>s.includes(c)\<close> for a search string of one code unit, the only use in the source.\<close>
  "includesStr s c = (c \<in> set s)"

definition isDigit :: "char \<Rightarrow> bool" where
  "isDigit c = (c \<in> set ''0123456789'')"

definition isDecimalDigits :: "string \<Rightarrow> bool" where
  "isDecimalDigits s = (s \<noteq> [] \<and> list_all isDigit s)"

definition isSignedInteger :: "string \<Rightarrow> bool" where
  "isSignedInteger s =
     (case s of
        [] \<Rightarrow> False
      | c # r \<Rightarrow> if c = CHR ''+'' \<or> c = CHR ''-'' then isDecimalDigits r else isDecimalDigits s)"

definition isExponentPartOpt :: "string \<Rightarrow> bool" where
  "isExponentPartOpt s =
     (case s of
        [] \<Rightarrow> True
      | c # r \<Rightarrow> (c = CHR ''e'' \<or> c = CHR ''E'') \<and> isSignedInteger r)"

definition isStrUnsignedDecimalLiteral :: "string \<Rightarrow> bool" where
  \<comment> \<open>\<open>Infinity\<close>, \<open>digits [. [digits]] [exponent]\<close> or \<open>. digits [exponent]\<close>\<close>
  "isStrUnsignedDecimalLiteral s =
     (s = ''Infinity'' \<or>
      (let ip = takeWhile isDigit s; r = dropWhile isDigit s in
         case r of
           [] \<Rightarrow> ip \<noteq> []
         | c # r' \<Rightarrow>
             if c = CHR ''.''
             then (ip \<noteq> [] \<or> takeWhile isDigit r' \<noteq> []) \<and> isExponentPartOpt (dropWhile isDigit r')
             else ip \<noteq> [] \<and> isExponentPartOpt r))"

definition isStrDecimalLiteral :: "string \<Rightarrow> bool" where
  "isStrDecimalLiteral s =
     (case s of
        [] \<Rightarrow> False
      | c # r \<Rightarrow>
          if c = CHR ''+'' \<or> c = CHR ''-'' then isStrUnsignedDecimalLiteral r
          else isStrUnsignedDecimalLiteral s)"

definition isNonDecimalIntegerLiteral :: "string \<Rightarrow> bool" where
  \<comment> \<open>\<open>0x\<close>, \<open>0o\<close> and \<open>0b\<close> literals; they take no sign.\<close>
  "isNonDecimalIntegerLiteral s =
     (case s of
        a # b # r \<Rightarrow>
          a = CHR ''0'' \<and> r \<noteq> [] \<and>
          ((b \<in> set ''xX'' \<and> list_all (\<lambda>c. c \<in> set ''0123456789abcdefABCDEF'') r) \<or>
           (b \<in> set ''oO'' \<and> list_all (\<lambda>c. c \<in> set ''01234567'') r) \<or>
           (b \<in> set ''bB'' \<and> list_all (\<lambda>c. c \<in> set ''01'') r))
      | _ \<Rightarrow> False)"

definition isNaN_Number :: "string \<Rightarrow> bool" where
  \<comment> \<open>\<open>isNaN(Number(s))\<close>: the text, white space stripped, is neither empty (which
      converts to 0) nor a StrNumericLiteral.\<close>
  "isNaN_Number s =
     (let t = trim s in t \<noteq> [] \<and> \<not> isStrDecimalLiteral t \<and> \<not> isNonDecimalIntegerLiteral t)"


section \<open>The type inferrer\<close>

datatype DataType = TString | TNumber | TDecimal | TBoolean | TFree

definition booleanValues :: "string list" where
  "booleanValues = [''true'', ''false'']"

definition detectColumnType :: "string list \<Rightarrow> DataType" where
  "detectColumnType vals =
     (if length vals = 0 then TString
      else
        let hasComplexContent =
              list_ex (\<lambda>v. includesStr v CHR ''<'' \<or> includesStr v CHR ''>'' \<or> length v > 100) vals
        in
        if hasComplexContent then TFree
        else
          let allBoolean = list_all (\<lambda>v. v = [] \<or> toLowerCase v \<in> set booleanValues) vals in
          if allBoolean then TBoolean
          else
            let numericValues = filter (\<lambda>v. v \<noteq> []) vals in
            if length numericValues = 0 then TString
            else
              let allNumeric = list_all (\<lambda>v. \<not> isNaN_Number v) numericValues in
              if \<not> allNumeric then TString
              else
                let hasDecimal = list_ex (\<lambda>v. includesStr v CHR ''.'') numericValues in
                if hasDecimal then TDecimal else TNumber)"

subsection \<open>The decision table of the specification\<close>

fun firstMatch :: "(bool \<times> 'a) list \<Rightarrow> 'a \<Rightarrow> 'a" where
  "firstMatch [] d = d"
| "firstMatch ((g, r) # rules) d = (if g then r else firstMatch rules d)"

definition isComplex :: "string \<Rightarrow> bool" where
  "isComplex v = (CHR ''<'' \<in> set v \<or> CHR ''>'' \<in> set v \<or> 100 < length v)"

definition isBooleanText :: "string \<Rightarrow> bool" where
  "isBooleanText v = (v = [] \<or> toLowerCase v = ''true'' \<or> toLowerCase v = ''false'')"

definition parsesAsNumber :: "string \<Rightarrow> bool" where
  "parsesAsNumber v = (\<not> isNaN_Number v)"

definition inferType_spec :: "string list \<Rightarrow> DataType" where
  \<comment> \<open>The four steps of the specification, as an ordered table of guards; the first
      guard that holds decides, and Text is the result when none does.\<close>
  "inferType_spec vals =
     (let remaining = filter (\<lambda>v. v \<noteq> []) vals in
      firstMatch
        [(vals = [], TString),
         (list_ex isComplex vals, TFree),
         (list_all isBooleanText vals, TBoolean),
         (remaining = [], TString),
         (list_all parsesAsNumber remaining \<and> list_ex (\<lambda>v. CHR ''.'' \<in> set v) remaining, TDecimal),
         (list_all parsesAsNumber remaining, TNumber)]
        TString)"


section \<open>Values of the runtime\<close>

text \<open>
  A number of the runtime is a finite rational, an infinity or NaN. The rounding of
  IEEE doubles, negative zero and the exponent notation of very large or very small
  numbers are outside the model: a finite number is its exact value.
\<close>

datatype jsnum = Fin rat | PosInf | NegInf | NaN

datatype jsvalue = VUndefined | VNull | VBool bool | VNumber jsnum | VString string

definition digitChar :: "nat \<Rightarrow> char" where
  "digitChar d = ''0123456789'' ! (d mod 10)"

definition digitVal :: "char \<Rightarrow> nat" where
  "digitVal c =
     (case map_of (zip ''0123456789'' [0, 1, 2, 3, 4, 5, 6, 7, 8, 9]) c of
        Some d \<Rightarrow> d
      | None \<Rightarrow> 0)"

fun natToString :: "nat \<Rightarrow> string" where
  "natToString n =
     (if n < 10 then [digitChar n] else natToString (n div 10) @ [digitChar (n mod 10)])"

declare natToString.simps [simp del]

definition digitsToNat :: "string \<Rightarrow> nat" where
  "digitsToNat s = foldl (\<lambda>n c. 10 * n + digitVal c) 0 s"

definition scale10 :: "rat \<Rightarrow> int \<Rightarrow> rat" where
  "scale10 m e = (if 0 \<le> e then m * 10 ^ nat e else m / 10 ^ nat (- e))"

definition splitSign :: "string \<Rightarrow> bool \<times> string" where
  \<comment> \<open>an optional sign: whether it is a minus, and the rest\<close>
  "splitSign s =
     (case s of
        [] \<Rightarrow> (False, [])
      | c # r \<Rightarrow> if c = CHR ''-'' then (True, r) else if c = CHR ''+'' then (False, r) else (False, s))"

definition parseInt10 :: "string \<Rightarrow> jsnum" where
  \<comment> \<open>\<open>parseInt(s, 10)\<close>: leading white space, a sign, then the longest run of digits.\<close>
  "parseInt10 s =
     (let (neg, r) = splitSign (dropWhile isWhiteSpace s);
          ds = takeWhile isDigit r
      in if ds = [] then NaN
         else Fin (if neg then - of_nat (digitsToNat ds) else of_nat (digitsToNat ds)))"

definition exponentValue :: "string \<Rightarrow> int" where
  \<comment> \<open>the value of an exponent part at the head of the text, 0 when there is none\<close>
  "exponentValue s =
     (case s of
        [] \<Rightarrow> 0
      | c # r \<Rightarrow>
          if c = CHR ''e'' \<or> c = CHR ''E''
          then (let (neg, d) = splitSign r; ds = takeWhile isDigit d
                in if ds = [] then 0
                   else if neg then - int (digitsToNat ds) else int (digitsToNat ds))
          else 0)"

definition parseFloat :: "string \<Rightarrow> jsnum" where
  \<comment> \<open>\<open>parseFloat(s)\<close>: leading white space, then the longest prefix that is a
      StrDecimalLiteral.\<close>
  "parseFloat s =
     (let (neg, r) = splitSign (dropWhile isWhiteSpace s) in
      if take 8 r = ''Infinity'' then (if neg then NegInf else PosInf)
      else
        let ip = takeWhile isDigit r;
            r1 = dropWhile isDigit r;
            (fp, r2) =
              (case r1 of
                 [] \<Rightarrow> ([], [])
               | c # r' \<Rightarrow>
                   if c = CHR ''.'' then (takeWhile isDigit r', dropWhile isDigit r')
                   else ([], r1))
        in if ip = [] \<and> fp = [] then NaN
           else
             let m = scale10 (of_nat (digitsToNat (ip @ fp))) (exponentValue r2 - int (length fp))
             in Fin (if neg then - m else m))"

fun fractionDigits :: "nat \<Rightarrow> rat \<Rightarrow> string" where
  "fractionDigits 0 f = []"
| "fractionDigits (Suc k) f =
     (if f = 0 then []
      else let d = nat \<lfloor>f * 10\<rfloor> in digitChar d # fractionDigits k (f * 10 - of_nat d))"

definition unsignedToString :: "rat \<Rightarrow> string" where
  "unsignedToString r =
     (let ip = nat \<lfloor>r\<rfloor>; f = r - of_nat ip
      in natToString ip @ (if f = 0 then [] else CHR ''.'' # fractionDigits 20 f))"

definition numberToString :: "jsnum \<Rightarrow> string" where
  \<comment> \<open>Number::toString in positional notation, with at most 20 fraction digits.\<close>
  "numberToString n =
     (case n of
        NaN \<Rightarrow> ''NaN''
      | PosInf \<Rightarrow> ''Infinity''
      | NegInf \<Rightarrow> ''-Infinity''
      | Fin r \<Rightarrow> if r < 0 then CHR ''-'' # unsignedToString (- r) else unsignedToString r)"

definition jsString :: "jsvalue \<Rightarrow> string" where
  \<comment> \<open>\<open>String(v)\<close>\<close>
  "jsString v =
     (case v of
        VUndefined \<Rightarrow> ''undefined''
      | VNull \<Rightarrow> ''null''
      | VBool b \<Rightarrow> if b then ''true'' else ''false''
      | VNumber n \<Rightarrow> numberToString n
      | VString s \<Rightarrow> s)"

definition truthy :: "jsvalue \<Rightarrow> bool" where
  "truthy v =
     (case v of
        VUndefined \<Rightarrow> False
      | VNull \<Rightarrow> False
      | VBool b \<Rightarrow> b
      | VNumber n \<Rightarrow> n \<noteq> NaN \<and> n \<noteq> Fin 0
      | VString s \<Rightarrow> s \<noteq> [])"

subsection \<open>Objects\<close>

text \<open>
  An object with string keys and primitive values is an association list with distinct
  keys in insertion order. The prototype chain is outside the model.
\<close>

type_synonym jsobject = "(string \<times> jsvalue) list"

definition getProp :: "jsobject \<Rightarrow> string \<Rightarrow> jsvalue" where
  \<comment> \<open>\<open>obj[k]\<close>\<close>
  "getProp obj k = (case map_of obj k of None \<Rightarrow> VUndefined | Some v \<Rightarrow> v)"

definition hasProp :: "string \<Rightarrow> jsobject \<Rightarrow> bool" where
  \<comment> \<open>\<open>k in obj\<close>\<close>
  "hasProp k obj = (map_of obj k \<noteq> None)"

definition setProp :: "string \<Rightarrow> jsvalue \<Rightarrow> jsobject \<Rightarrow> jsobject" where
  \<comment> \<open>\<open>obj[k] = v\<close>\<close>
  "setProp k v obj = AList.update k v obj"

definition assign :: "jsobject \<Rightarrow> jsobject \<Rightarrow> jsobject" where
  \<comment> \<open>\<open>Object.assign(target, source)\<close>, also the spread \<open>{...target, ...source}\<close>\<close>
  "assign target source = foldl (\<lambda>obj (k, v). setProp k v obj) target source"


section \<open>The external tree\<close>

text \<open>
  The table element of the host document. Its children are \<open>thead\<close>, \<open>tbody\<close> and
  \<open>tfoot\<close> sections holding rows, rows that are direct children of the table, and other
  elements (\<open>caption\<close>, \<open>colgroup\<close>, an input placed directly in the table). A row holds
  \<open>td\<close> and \<open>th\<close> cells. A cell holds text, or the markup that an assignment to
  \<open>innerHTML\<close> left in it. The hidden inputs of the table are listed in document order;
  inside sections and rows they sit in cells, so a row of a section has no sibling before
  it other than rows. Tables nested in cells are outside the model.
\<close>

datatype cellTag = TD | TH

datatype cellContent = Text string | Markup string

record cell_elem =
  tag :: cellTag
  content :: cellContent

record row_elem =
  data_id :: "string option"
  cells :: "cell_elem list"

datatype table_child =
    THead "row_elem list"
  | TBody "row_elem list"
  | TFoot "row_elem list"
  | Tr row_elem
  | OtherChild

record input_elem =
  input_id :: string
  input_name :: string
  input_value :: string
  input_text :: string

record table_elem =
  elem_id :: string
  name_attr :: "string option"
  hiddenInputs :: "input_elem list"
  children :: "table_child list"

datatype element = HTMLTableElement table_elem | OtherElement

type_synonym document = "string \<Rightarrow> element option"

fun stripTags :: "bool \<Rightarrow> string \<Rightarrow> string" where
  "stripTags inTag [] = []"
| "stripTags inTag (c # s) =
     (if inTag then (if c = CHR ''>'' then stripTags False s else stripTags True s)
      else if c = CHR ''<'' then stripTags True s
      else c # stripTags False s)"

definition textContent :: "cell_elem \<Rightarrow> string" where
  \<comment> \<open>The text of a cell. For markup it is the text of the nodes the host's parser
      builds, taken here as the markup with its tags deleted (character references are
      not decoded).\<close>
  "textContent c = (case content c of Text s \<Rightarrow> s | Markup m \<Rightarrow> stripTags False m)"

definition cellText :: "cell_elem \<Rightarrow> string" where
  \<comment> \<open>\<open>cell.textContent?.trim() || ''\<close>\<close>
  "cellText c = trim (textContent c)"

subsection \<open>Selectors\<close>

fun allRows :: "table_child list \<Rightarrow> row_elem list" where
  \<comment> \<open>\<open>querySelectorAll('tr')\<close> on the table: every row, in document order\<close>
  "allRows [] = []"
| "allRows (THead rs # cs) = rs @ allRows cs"
| "allRows (TBody rs # cs) = rs @ allRows cs"
| "allRows (TFoot rs # cs) = rs @ allRows cs"
| "allRows (Tr r # cs) = r # allRows cs"
| "allRows (OtherChild # cs) = allRows cs"

fun hasTHead :: "table_child list \<Rightarrow> bool" where
  \<comment> \<open>\<open>querySelector('thead')\<close> finds an element\<close>
  "hasTHead [] = False"
| "hasTHead (THead rs # cs) = True"
| "hasTHead (c # cs) = hasTHead cs"

fun theadRows :: "table_child list \<Rightarrow> row_elem list" where
  \<comment> \<open>\<open>querySelectorAll('thead tr')\<close>\<close>
  "theadRows [] = []"
| "theadRows (THead rs # cs) = rs @ theadRows cs"
| "theadRows (c # cs) = theadRows cs"

fun firstTBody :: "table_child list \<Rightarrow> row_elem list option" where
  \<comment> \<open>the rows of \<open>querySelector('tbody')\<close>, if there is a \<open>tbody\<close>\<close>
  "firstTBody [] = None"
| "firstTBody (TBody rs # cs) = Some rs"
| "firstTBody (c # cs) = firstTBody cs"

fun firstRowOfSections :: "table_child list \<Rightarrow> row_elem option" where
  \<comment> \<open>the first row that is the first child of a section\<close>
  "firstRowOfSections [] = None"
| "firstRowOfSections (THead (r # rs) # cs) = Some r"
| "firstRowOfSections (TBody (r # rs) # cs) = Some r"
| "firstRowOfSections (TFoot (r # rs) # cs) = Some r"
| "firstRowOfSections (c # cs) = firstRowOfSections cs"

definition trFirstChild :: "table_child list \<Rightarrow> row_elem option" where
  \<comment> \<open>\<open>querySelector('tr:first-child')\<close>: the first row, in document order, that is the
      first child of its parent\<close>
  "trFirstChild cs = (case cs of Tr r # _ \<Rightarrow> Some r | _ \<Rightarrow> firstRowOfSections cs)"

definition firstOf :: "'a list \<Rightarrow> 'a option" where
  "firstOf xs = (case xs of [] \<Rightarrow> None | x # _ \<Rightarrow> Some x)"

definition thCells :: "row_elem \<Rightarrow> cell_elem list" where
  \<comment> \<open>\<open>row.querySelectorAll('th')\<close>\<close>
  "thCells r = filter (\<lambda>c. tag c = TH) (cells r)"

definition tdCells :: "row_elem \<Rightarrow> cell_elem list" where
  \<comment> \<open>\<open>row.querySelectorAll('td')\<close>\<close>
  "tdCells r = filter (\<lambda>c. tag c = TD) (cells r)"


section \<open>The model\<close>

record TableHeader =
  name :: string
  type :: DataType

type_synonym TableRow = jsobject

type_synonym HiddenInput = "(string \<times> string) list"

record TableObject =
  table_id :: string
  table_name :: string
  headers :: "TableHeader list"
  hidden :: HiddenInput
  rows :: "TableRow list"

datatype error =
    TableNotFound string
  | NotATable string
  | HiddenInputWithoutId

record engine =
  tableElement :: table_elem
  tableObject :: TableObject
  nextRowId :: nat


section \<open>Parsing\<close>

fun parseHiddenInputs :: "input_elem list \<Rightarrow> HiddenInput \<Rightarrow> error + HiddenInput" where
  "parseHiddenInputs [] hid = Inr hid"
| "parseHiddenInputs (htmlInput # rest) hid =
     (let ident = (if input_id htmlInput \<noteq> [] then input_id htmlInput else input_name htmlInput) in
      if ident = [] then Inl HiddenInputWithoutId
      else
        parseHiddenInputs rest
          (AList.update ident
             (if input_value htmlInput \<noteq> [] then input_value htmlInput
              else if input_text htmlInput \<noteq> [] then input_text htmlInput
              else [])
             hid))"

definition isRowHeader :: "cell_elem list \<Rightarrow> bool" where
  "isRowHeader cs = list_all (\<lambda>c. let t = cellText c in t \<noteq> [] \<and> isNaN_Number t) cs"

definition columnName :: "nat \<Rightarrow> string" where
  \<comment> \<open>the template \<open>column${index + 1}\<close>\<close>
  "columnName index = ''column'' @ natToString (index + 1)"

definition createNumericHeaders :: "nat \<Rightarrow> TableHeader list" where
  "createNumericHeaders count = map (\<lambda>i. \<lparr>name = columnName i, type = TString\<rparr>) [0..<count]"

definition headersFromCells :: "cell_elem list \<Rightarrow> TableHeader list" where
  \<comment> \<open>the loop that both header branches of \<open>parseHeaders\<close> run over their cells\<close>
  "headersFromCells cs =
     map (\<lambda>(index, c).
            let headerText = (if cellText c \<noteq> [] then cellText c else columnName index)
            in \<lparr>name = toLowerCase headerText, type = TString\<rparr>)
         (enumerate 0 cs)"

definition parseHeaders :: "table_elem \<Rightarrow> TableHeader list" where
  "parseHeaders tbl =
     (let headerRow =
            (case firstOf (theadRows (children tbl)) of
               Some r \<Rightarrow> Some r
             | None \<Rightarrow> trFirstChild (children tbl))
      in case headerRow of
           Some r \<Rightarrow>
             if length (thCells r) > 0 then headersFromCells (thCells r)
             else
               let firstRowCells = tdCells r in
               if length firstRowCells > 0
               then (if isRowHeader firstRowCells then headersFromCells firstRowCells
                     else createNumericHeaders (length firstRowCells))
               else []
         | None \<Rightarrow>
             (case firstOf (allRows (children tbl)) of
                Some firstDataRow \<Rightarrow> createNumericHeaders (length (cells firstDataRow))
              | None \<Rightarrow> []))"

definition hasHeaderRow :: "table_elem \<Rightarrow> bool" where
  "hasHeaderRow tbl =
     (if hasTHead (children tbl) then True
      else
        case trFirstChild (children tbl) of
          Some firstRow \<Rightarrow>
            if length (thCells firstRow) > 0 then True else isRowHeader (tdCells firstRow)
        | None \<Rightarrow> False)"

definition generateRowId :: "row_elem \<Rightarrow> nat \<Rightarrow> nat \<Rightarrow> string \<times> nat" where
  \<comment> \<open>the identity of the row, and the counter \<open>nextRowId\<close> after the call\<close>
  "generateRowId row index n =
     (let synthetic = (''row_'' @ natToString index, max n (index + 1)) in
      case data_id row of
        Some dataId \<Rightarrow> if dataId \<noteq> [] then (dataId, n) else synthetic
      | None \<Rightarrow> synthetic)"

definition parseValue :: "string \<Rightarrow> DataType \<Rightarrow> jsvalue" where
  "parseValue v t =
     (case t of
        TNumber \<Rightarrow> if v = [] then VNull else VNumber (parseInt10 v)
      | TDecimal \<Rightarrow> if v = [] then VNull else VNumber (parseFloat v)
      | TBoolean \<Rightarrow> VBool (toLowerCase v = ''true'')
      | TFree \<Rightarrow> VString v
      | TString \<Rightarrow> VString v)"

definition scopeRows :: "table_elem \<Rightarrow> row_elem list" where
  \<comment> \<open>the rows of the first \<open>tbody\<close>, or every row of the table when it has none\<close>
  "scopeRows tbl =
     (case firstTBody (children tbl) of
        Some rs \<Rightarrow> rs
      | None \<Rightarrow> allRows (children tbl))"

definition startIndex :: "table_elem \<Rightarrow> nat" where
  "startIndex tbl = (if hasHeaderRow tbl then 1 else 0)"

definition dataRows :: "table_elem \<Rightarrow> row_elem list" where
  \<comment> \<open>\<open>Array.from(rows).slice(startIndex)\<close>\<close>
  "dataRows tbl = drop (startIndex tbl) (scopeRows tbl)"

definition collectRow :: "string list list \<Rightarrow> row_elem \<Rightarrow> string list list" where
  \<comment> \<open>the first pass over one row: the text of cell \<open>colIndex\<close> is pushed on column
      \<open>colIndex\<close>, for the cells that have a column\<close>
  "collectRow columnData row =
     map (\<lambda>(colIndex, col).
            if colIndex < length (cells row) then col @ [cellText (cells row ! colIndex)] else col)
         (enumerate 0 columnData)"

definition collectColumns :: "nat \<Rightarrow> row_elem list \<Rightarrow> string list list" where
  "collectColumns ncols rs = foldl collectRow (replicate ncols []) rs"

definition typeHeaders :: "TableHeader list \<Rightarrow> string list list \<Rightarrow> TableHeader list" where
  "typeHeaders hs columnData =
     map (\<lambda>(index, header). header\<lparr>type := detectColumnType (columnData ! index)\<rparr>)
         (enumerate 0 hs)"

definition parseCells :: "TableHeader list \<Rightarrow> row_elem \<Rightarrow> TableRow \<Rightarrow> TableRow" where
  \<comment> \<open>the second pass over one row: each cell that has a column is stored under the
      column's name\<close>
  "parseCells hs row rowObject =
     foldl (\<lambda>obj (colIndex, c).
              if colIndex < length hs
              then setProp (name (hs ! colIndex)) (parseValue (cellText c) (type (hs ! colIndex))) obj
              else obj)
           rowObject (enumerate 0 (cells row))"

fun parseRowObjects ::
  "TableHeader list \<Rightarrow> row_elem list \<Rightarrow> nat \<Rightarrow> nat \<Rightarrow> TableRow list \<times> nat" where
  "parseRowObjects hs [] rowIndex n = ([], n)"
| "parseRowObjects hs (row # rest) rowIndex n =
     (let (ident, n1) = generateRowId row rowIndex n;
          rowObject = parseCells hs row [(''id'', VString ident)];
          (objs, n2) = parseRowObjects hs rest (rowIndex + 1) n1
      in (rowObject # objs, n2))"

definition parseRows ::
  "table_elem \<Rightarrow> TableHeader list \<Rightarrow> nat \<Rightarrow> TableHeader list \<times> TableRow list \<times> nat" where
  \<comment> \<open>the typed headers, the rows and the counter after the call\<close>
  "parseRows tbl hs n =
     (let columnData = collectColumns (length hs) (dataRows tbl);
          typed = typeHeaders hs columnData;
          (objs, n') = parseRowObjects typed (dataRows tbl) 0 n
      in (typed, objs, n'))"

definition parseTable :: "table_elem \<Rightarrow> nat \<Rightarrow> error + (TableObject \<times> nat)" where
  "parseTable tbl n =
     (case parseHiddenInputs (hiddenInputs tbl) [] of
        Inl e \<Rightarrow> Inl e
      | Inr hid \<Rightarrow>
          let (typed, objs, n') = parseRows tbl (parseHeaders tbl) n
          in Inr (\<lparr>table_id = elem_id tbl,
                    table_name = (case name_attr tbl of None \<Rightarrow> [] | Some s \<Rightarrow> s),
                    headers = typed,
                    hidden = hid,
                    rows = objs\<rparr>, n'))"

definition construct :: "document \<Rightarrow> string \<Rightarrow> error + engine" where
  \<comment> \<open>the constructor: \<open>nextRowId\<close> starts at 0\<close>
  "construct doc tableId =
     (case doc tableId of
        None \<Rightarrow> Inl (TableNotFound tableId)
      | Some OtherElement \<Rightarrow> Inl (NotATable tableId)
      | Some (HTMLTableElement tbl) \<Rightarrow>
          (case parseTable tbl 0 of
             Inl e \<Rightarrow> Inl e
           | Inr (tobj, n) \<Rightarrow> Inr \<lparr>tableElement = tbl, tableObject = tobj, nextRowId = n\<rparr>))"

definition refresh :: "engine \<Rightarrow> error + engine" where
  \<comment> \<open>a parse that throws leaves the engine as it was\<close>
  "refresh eng =
     (case parseTable (tableElement eng) (nextRowId eng) of
        Inl e \<Rightarrow> Inl e
      | Inr (tobj, n) \<Rightarrow> Inr (eng\<lparr>tableObject := tobj, nextRowId := n\<rparr>))"


section \<open>Rendering into the tree\<close>

definition renderValue :: "DataType \<Rightarrow> jsvalue \<Rightarrow> cellContent" where
  \<comment> \<open>\<open>innerHTML = value\<close> for a column of type free (null becomes the empty string),
      \<open>textContent = String(value)\<close> otherwise\<close>
  "renderValue t v =
     (if t = TFree then Markup (case v of VNull \<Rightarrow> [] | _ \<Rightarrow> jsString v)
      else Text (jsString v))"

fun inFirstTBody :: "(row_elem list \<Rightarrow> row_elem list) \<Rightarrow> table_child list \<Rightarrow> table_child list" where
  \<comment> \<open>a change to the rows of the first \<open>tbody\<close>\<close>
  "inFirstTBody f [] = []"
| "inFirstTBody f (TBody rs # cs) = TBody (f rs) # cs"
| "inFirstTBody f (c # cs) = c # inFirstTBody f cs"

definition modifyAt :: "nat \<Rightarrow> ('a \<Rightarrow> 'a option) \<Rightarrow> 'a list \<Rightarrow> 'a list" where
  \<comment> \<open>element \<open>k\<close> replaced, or removed when \<open>f\<close> gives \<open>None\<close>; nothing out of range\<close>
  "modifyAt k f xs =
     (if k < length xs
      then (case f (xs ! k) of None \<Rightarrow> take k xs @ drop (Suc k) xs | Some y \<Rightarrow> xs[k := y])
      else xs)"

fun modifyRow :: "nat \<Rightarrow> (row_elem \<Rightarrow> row_elem option) \<Rightarrow> table_child list \<Rightarrow> table_child list" where
  \<comment> \<open>the same for row \<open>k\<close> of the table in document order, within its own parent\<close>
  "modifyRow k f [] = []"
| "modifyRow k f (THead rs # cs) =
     (if k < length rs then THead (modifyAt k f rs) # cs
      else THead rs # modifyRow (k - length rs) f cs)"
| "modifyRow k f (TBody rs # cs) =
     (if k < length rs then TBody (modifyAt k f rs) # cs
      else TBody rs # modifyRow (k - length rs) f cs)"
| "modifyRow k f (TFoot rs # cs) =
     (if k < length rs then TFoot (modifyAt k f rs) # cs
      else TFoot rs # modifyRow (k - length rs) f cs)"
| "modifyRow k f (Tr r # cs) =
     (if k = 0 then (case f r of None \<Rightarrow> cs | Some r' \<Rightarrow> Tr r' # cs)
      else Tr r # modifyRow (k - 1) f cs)"
| "modifyRow k f (OtherChild # cs) = OtherChild # modifyRow k f cs"

definition modifyScopeRow :: "nat \<Rightarrow> (row_elem \<Rightarrow> row_elem option) \<Rightarrow> table_elem \<Rightarrow> table_elem" where
  \<comment> \<open>a change to element \<open>k\<close> of \<open>tbody.querySelectorAll('tr')\<close>, where \<open>tbody\<close> is the
      first \<open>tbody\<close> or else the table\<close>
  "modifyScopeRow k f tbl =
     tbl\<lparr>children :=
           (if firstTBody (children tbl) \<noteq> None then inFirstTBody (modifyAt k f) (children tbl)
            else modifyRow k f (children tbl))\<rparr>"

definition addRowToDOM :: "TableHeader list \<Rightarrow> TableRow \<Rightarrow> table_elem \<Rightarrow> table_elem" where
  "addRowToDOM hs row tbl =
     (let tr = \<lparr>data_id = Some (jsString (getProp row ''id'')),
                cells = map (\<lambda>header.
                               \<lparr>tag = TD,
                                content = renderValue (type header) (getProp row (name header))\<rparr>)
                            hs\<rparr>
      in tbl\<lparr>children :=
              (if firstTBody (children tbl) \<noteq> None
               then inFirstTBody (\<lambda>rs. rs @ [tr]) (children tbl)
               else children tbl @ [Tr tr])\<rparr>)"

definition renderInto :: "TableHeader list \<Rightarrow> TableRow \<Rightarrow> row_elem \<Rightarrow> row_elem" where
  \<comment> \<open>the loop over the headers: cell \<open>index\<close>, when the row has one, takes the value of
      column \<open>index\<close>\<close>
  "renderInto hs row domRow =
     domRow\<lparr>cells :=
       foldl (\<lambda>cs (index, header).
                if index < length cs
                then cs[index := (cs ! index)\<lparr>content :=
                       renderValue (type header) (getProp row (name header))\<rparr>]
                else cs)
             (cells domRow) (enumerate 0 hs)\<rparr>"

definition updateRowInDOM :: "TableHeader list \<Rightarrow> TableRow \<Rightarrow> nat \<Rightarrow> table_elem \<Rightarrow> table_elem" where
  "updateRowInDOM hs row rowIndex tbl =
     (let k = startIndex tbl + rowIndex in
      if k < length (scopeRows tbl) then modifyScopeRow k (\<lambda>domRow. Some (renderInto hs row domRow)) tbl
      else tbl)"

definition deleteRowFromDOM :: "nat \<Rightarrow> table_elem \<Rightarrow> table_elem" where
  "deleteRowFromDOM rowIndex tbl =
     (let k = startIndex tbl + rowIndex in
      if k < length (scopeRows tbl) then modifyScopeRow k (\<lambda>domRow. None) tbl
      else tbl)"


section \<open>The mutation engine\<close>

fun findIndex :: "('a \<Rightarrow> bool) \<Rightarrow> 'a list \<Rightarrow> nat option" where
  \<comment> \<open>\<open>Array.prototype.findIndex\<close>; \<open>None\<close> is the result -1\<close>
  "findIndex P [] = None"
| "findIndex P (x # xs) = (if P x then Some 0 else map_option Suc (findIndex P xs))"

definition rowIndexOf :: "string \<Rightarrow> TableRow list \<Rightarrow> nat option" where
  \<comment> \<open>\<open>rows.findIndex(row => row.id === id)\<close>\<close>
  "rowIndexOf ident rs = findIndex (\<lambda>row. getProp row ''id'' = VString ident) rs"

definition getDefaultValue :: "DataType \<Rightarrow> jsvalue" where
  "getDefaultValue t =
     (case t of
        TNumber \<Rightarrow> VNumber (Fin 0)
      | TDecimal \<Rightarrow> VNumber (Fin 0)
      | TBoolean \<Rightarrow> VBool False
      | TFree \<Rightarrow> VString []
      | TString \<Rightarrow> VString [])"

definition buildNewRow :: "TableRow \<Rightarrow> TableHeader list \<Rightarrow> nat \<Rightarrow> TableRow \<times> nat" where
  \<comment> \<open>the head of \<open>addRow\<close> and of \<open>addRowAsync\<close>: the object literal
      \<open>{id: rowData.id || `row_${this.nextRowId++}`, ...rowData}\<close>, then the defaults of
      the columns it lacks; with the counter after it\<close>
  "buildNewRow rowData hs n =
     (let (ident, n') =
            (if truthy (getProp rowData ''id'') then (getProp rowData ''id'', n)
             else (VString (''row_'' @ natToString n), n + 1));
          newRow = assign [(''id'', ident)] rowData
      in (foldl (\<lambda>r header.
                   if \<not> hasProp (name header) r
                   then setProp (name header) (getDefaultValue (type header)) r
                   else r)
                newRow hs,
          n'))"

definition commitAdd :: "TableRow \<Rightarrow> engine \<Rightarrow> engine" where
  \<comment> \<open>the tail of \<open>addRow\<close> and of \<open>addRowAsync\<close>: push on the rows, then \<open>addRowToDOM\<close>\<close>
  "commitAdd newRow eng =
     eng\<lparr>tableObject := (tableObject eng)\<lparr>rows := rows (tableObject eng) @ [newRow]\<rparr>,
         tableElement := addRowToDOM (headers (tableObject eng)) newRow (tableElement eng)\<rparr>"

definition addRow :: "TableRow \<Rightarrow> engine \<Rightarrow> TableRow \<times> engine" where
  "addRow rowData eng =
     (let (newRow, n') = buildNewRow rowData (headers (tableObject eng)) (nextRowId eng)
      in (newRow, commitAdd newRow (eng\<lparr>nextRowId := n'\<rparr>)))"

definition addRowAsync ::
  "TableRow \<Rightarrow> (TableRow \<Rightarrow> TableRow option) option \<Rightarrow> engine \<Rightarrow> TableRow option \<times> engine" where
  \<comment> \<open>The decision function is a function of the candidate row; \<open>None\<close> is a falsy
      result. The counter is advanced before it is asked.\<close>
  "addRowAsync rowData beforeAdd eng =
     (let (newRow, n') = buildNewRow rowData (headers (tableObject eng)) (nextRowId eng);
          eng1 = eng\<lparr>nextRowId := n'\<rparr>
      in case beforeAdd of
           None \<Rightarrow> (Some newRow, commitAdd newRow eng1)
         | Some decide \<Rightarrow>
             (case decide newRow of
                None \<Rightarrow> (None, eng1)
              | Some result \<Rightarrow>
                  (let newRow' = assign newRow result
                   in (Some newRow', commitAdd newRow' eng1))))"

definition commitUpdate :: "nat \<Rightarrow> TableRow \<Rightarrow> engine \<Rightarrow> engine" where
  \<comment> \<open>the tail of \<open>updateRow\<close> and of \<open>updateRowAsync\<close>: \<open>Object.assign(row, updates)\<close>
      on the row found, then \<open>updateRowInDOM\<close>\<close>
  "commitUpdate rowIndex updates eng =
     (let row = assign (rows (tableObject eng) ! rowIndex) updates
      in eng\<lparr>tableObject := (tableObject eng)\<lparr>rows := (rows (tableObject eng))[rowIndex := row]\<rparr>,
             tableElement :=
               updateRowInDOM (headers (tableObject eng)) row rowIndex (tableElement eng)\<rparr>)"

definition updateRow :: "string \<Rightarrow> TableRow \<Rightarrow> engine \<Rightarrow> bool \<times> engine" where
  "updateRow ident updates eng =
     (case rowIndexOf ident (rows (tableObject eng)) of
        None \<Rightarrow> (False, eng)
      | Some rowIndex \<Rightarrow> (True, commitUpdate rowIndex updates eng))"

definition updateRowAsync ::
  "string \<Rightarrow> TableRow \<Rightarrow> (TableRow \<Rightarrow> TableRow \<Rightarrow> TableRow option) option \<Rightarrow> engine
     \<Rightarrow> bool \<times> engine" where
  "updateRowAsync ident updates beforeUpdate eng =
     (case rowIndexOf ident (rows (tableObject eng)) of
        None \<Rightarrow> (False, eng)
      | Some rowIndex \<Rightarrow>
          (case beforeUpdate of
             None \<Rightarrow> (True, commitUpdate rowIndex updates eng)
           | Some decide \<Rightarrow>
               (case decide (rows (tableObject eng) ! rowIndex) updates of
                  None \<Rightarrow> (False, eng)
                | Some result \<Rightarrow> (True, commitUpdate rowIndex result eng))))"

definition commitDelete :: "nat \<Rightarrow> engine \<Rightarrow> engine" where
  \<comment> \<open>the tail of \<open>deleteRow\<close> and of \<open>deleteRowAsync\<close>: \<open>rows.splice(rowIndex, 1)\<close>, then
      \<open>deleteRowFromDOM\<close>\<close>
  "commitDelete rowIndex eng =
     eng\<lparr>tableObject :=
           (tableObject eng)\<lparr>rows := take rowIndex (rows (tableObject eng)) @
                                     drop (Suc rowIndex) (rows (tableObject eng))\<rparr>,
         tableElement := deleteRowFromDOM rowIndex (tableElement eng)\<rparr>"

definition deleteRow :: "string \<Rightarrow> engine \<Rightarrow> bool \<times> engine" where
  "deleteRow ident eng =
     (case rowIndexOf ident (rows (tableObject eng)) of
        None \<Rightarrow> (False, eng)
      | Some rowIndex \<Rightarrow> (True, commitDelete rowIndex eng))"

definition deleteRowAsync :: "string \<Rightarrow> (TableRow \<Rightarrow> bool) option \<Rightarrow> engine \<Rightarrow> bool \<times> engine" where
  "deleteRowAsync ident beforeDelete eng =
     (case rowIndexOf ident (rows (tableObject eng)) of
        None \<Rightarrow> (False, eng)
      | Some rowIndex \<Rightarrow>
          (case beforeDelete of
             None \<Rightarrow> (True, commitDelete rowIndex eng)
           | Some decide \<Rightarrow>
               if \<not> decide (rows (tableObject eng) ! rowIndex) then (False, eng)
               else (True, commitDelete rowIndex eng)))"


section \<open>Notions the statements use\<close>


definition rowIds :: "engine \<Rightarrow> jsvalue list" where
  \<comment> \<open>the identities of the rows of the model, in order\<close>
  "rowIds eng = map (\<lambda>row. getProp row ''id'') (rows (tableObject eng))"

definition treeTexts :: "table_elem \<Rightarrow> string list list" where
  \<comment> \<open>the cell texts of every row of the tree, in document order\<close>
  "treeTexts tbl = map (\<lambda>r. map cellText (cells r)) (allRows (children tbl))"


section \<open>Sample tables\<close>

definition td :: "string \<Rightarrow> cell_elem" where
  "td s = \<lparr>tag = TD, content = Text s\<rparr>"

definition th :: "string \<Rightarrow> cell_elem" where
  "th s = \<lparr>tag = TH, content = Text s\<rparr>"

definition tr :: "cell_elem list \<Rightarrow> row_elem" where
  "tr cs = \<lparr>data_id = None, cells = cs\<rparr>"

definition docOf :: "table_elem \<Rightarrow> document" where
  \<comment> \<open>a document whose only element with an id is the table\<close>
  "docOf tbl = (\<lambda>i. if i = elem_id tbl then Some (HTMLTableElement tbl) else None)"

definition peopleTable :: table_elem where
  \<comment> \<open>a header row of \<open>th\<close> cells and two data rows, in one \<open>tbody\<close>\<close>
  "peopleTable =
     \<lparr>elem_id = ''people'', name_attr = Some ''People'', hiddenInputs = [],
      children = [TBody [tr [th ''Name'', th ''Age''],
                         tr [td ''Alice'', td ''30''],
                         tr [td ''Bob'', td ''25'']]]\<rparr>"

definition peopleEngine :: engine where
  "peopleEngine =
     \<lparr>tableElement = peopleTable,
      tableObject =
        \<lparr>table_id = ''people'', table_name = ''People'',
         headers = [\<lparr>name = ''name'', type = TString\<rparr>, \<lparr>name = ''age'', type = TNumber\<rparr>],
         hidden = [],
         rows = [[(''id'', VString ''row_0''), (''name'', VString ''Alice''), (''age'', VNumber (Fin 30))],
                 [(''id'', VString ''row_1''), (''name'', VString ''Bob''), (''age'', VNumber (Fin 25))]]\<rparr>,
      nextRowId = 2\<rparr>"

definition staleEngine :: engine where
  \<comment> \<open>the engine of \<open>peopleTable\<close> with a model that lost its rows\<close>
  "staleEngine =
     peopleEngine\<lparr>tableObject := (tableObject peopleEngine)\<lparr>rows := []\<rparr>, nextRowId := 0\<rparr>"

definition staffTable :: table_elem where
  \<comment> \<open>the header in a \<open>thead\<close>, two data rows in a \<open>tbody\<close>\<close>
  "staffTable =
     \<lparr>elem_id = ''staff'', name_attr = None, hiddenInputs = [],
      children = [THead [tr [th ''Name'']],
                  TBody [tr [td ''Alice''], tr [td ''Bob'']]]\<rparr>"

definition staffEngine :: engine where
  "staffEngine =
     \<lparr>tableElement = staffTable,
      tableObject =
        \<lparr>table_id = ''staff'', table_name = [],
         headers = [\<lparr>name = ''name'', type = TString\<rparr>],
         hidden = [],
         rows = [[(''id'', VString ''row_0''), (''name'', VString ''Bob'')]]\<rparr>,
      nextRowId = 1\<rparr>"

definition notesTable :: table_elem where
  \<comment> \<open>no header: the first row holds a number\<close>
  "notesTable =
     \<lparr>elem_id = ''notes'', name_attr = None, hiddenInputs = [],
      children = [TBody [tr [td ''1''], tr [td ''b'']]]\<rparr>"

definition notesEngine :: engine where
  "notesEngine =
     \<lparr>tableElement = notesTable,
      tableObject =
        \<lparr>table_id = ''notes'', table_name = [],
         headers = [\<lparr>name = ''column1'', type = TString\<rparr>],
         hidden = [],
         rows = [[(''id'', VString ''row_0''), (''column1'', VString ''1'')],
                 [(''id'', VString ''row_1''), (''column1'', VString ''b'')]]\<rparr>,
      nextRowId = 2\<rparr>"

definition notesUpdated :: engine where
  "notesUpdated = snd (updateRow ''row_0'' [(''column1'', VString ''a'')] notesEngine)"

definition notesDeleted :: engine where
  "notesDeleted = snd (deleteRow ''row_0'' notesUpdated)"




section \<open>Auxiliary facts\<close>


lemma findIndex_None_iff: "findIndex P xs = None \<longleftrightarrow> \<not> list_ex P xs"
  by (induction xs) auto

lemma findIndex_Some: "findIndex P xs = Some i \<Longrightarrow> i < length xs \<and> P (xs ! i)"
  by (induction xs arbitrary: i) (auto split: if_splits)

lemma rowIndexOf_Some:
  assumes "rowIndexOf ident rs = Some i"
  shows "i < length rs" and "getProp (rs ! i) ''id'' = VString ident"
  using findIndex_Some [of "\<lambda>row. getProp row ''id'' = VString ident" rs i] assms
  by (simp_all add: rowIndexOf_def)

lemma assign_Nil [simp]: "assign tgt [] = tgt"
  by (simp add: assign_def)

lemma assign_Cons [simp]: "assign tgt ((k, v) # src) = assign (setProp k v tgt) src"
  by (simp add: assign_def)

lemma getProp_setProp: "getProp (setProp k v obj) k' = (if k' = k then v else getProp obj k')"
  by (simp add: getProp_def setProp_def update_conv')

lemma hasProp_setProp: "hasProp k (setProp a b obj) \<longleftrightarrow> k = a \<or> hasProp k obj"
  by (simp add: hasProp_def setProp_def update_conv')

lemma hasProp_Cons: "hasProp k ((a, b) # src) \<longleftrightarrow> k = a \<or> hasProp k src"
  by (auto simp: hasProp_def)

lemma getProp_assign_absent: "\<not> hasProp k src \<Longrightarrow> getProp (assign tgt src) k = getProp tgt k"
proof (induction src arbitrary: tgt)
  case Nil
  then show ?case by simp
next
  case (Cons p src)
  obtain a b where p: "p = (a, b)" by (cases p)
  from Cons.prems p have "k \<noteq> a" and "\<not> hasProp k src"
    by (simp_all add: hasProp_Cons)
  with Cons.IH [of "setProp a b tgt"] p show ?case
    by (simp add: getProp_setProp)
qed

lemma hasProp_assign: "hasProp k tgt \<Longrightarrow> hasProp k (assign tgt src)"
proof (induction src arbitrary: tgt)
  case Nil
  then show ?case by simp
next
  case (Cons p src)
  obtain a b where p: "p = (a, b)" by (cases p)
  have "hasProp k (setProp a b tgt)"
    using Cons.prems by (simp add: hasProp_setProp)
  from Cons.IH [OF this] p show ?case by simp
qed

lemma backfill_keeps:
  "hasProp k obj \<Longrightarrow>
   getProp (foldl (\<lambda>r header. if \<not> hasProp (name header) r
                                then setProp (name header) (getDefaultValue (type header)) r
                                else r) obj hs) k
   = getProp obj k"
proof (induction hs arbitrary: obj)
  case Nil
  then show ?case by simp
next
  case (Cons h hs)
  show ?case
  proof (cases "hasProp (name h) obj")
    case True
    with Cons show ?thesis by simp
  next
    case False
    with Cons.prems have ne: "k \<noteq> name h" by auto
    have "hasProp k (setProp (name h) (getDefaultValue (type h)) obj)"
      using Cons.prems by (simp add: hasProp_setProp)
    from Cons.IH [OF this] False ne show ?thesis
      by (simp add: getProp_setProp)
  qed
qed

lemma buildNewRow_counter:
  "snd (buildNewRow rowData hs n) = (if truthy (getProp rowData ''id'') then n else n + 1)"
  by (simp add: buildNewRow_def Let_def)

lemma buildNewRow_id:
  assumes "\<not> hasProp ''id'' rowData"
  shows "getProp (fst (buildNewRow rowData hs n)) ''id'' = VString (''row_'' @ natToString n)"
proof -
  from assms have f: "\<not> truthy (getProp rowData ''id'')"
    by (simp add: hasProp_def getProp_def truthy_def)
  let ?start = "[(''id'', VString (''row_'' @ natToString n))]"
  have h: "hasProp ''id'' (assign ?start rowData)"
    by (rule hasProp_assign) (simp add: hasProp_def)
  have g: "getProp (assign ?start rowData) ''id'' = VString (''row_'' @ natToString n)"
    using getProp_assign_absent [OF assms, of ?start] by (simp add: getProp_def)
  show ?thesis
    using f g backfill_keeps [OF h, of hs] by (simp add: buildNewRow_def Let_def)
qed

lemma addRow_id:
  "\<not> hasProp ''id'' rowData \<Longrightarrow>
   getProp (fst (addRow rowData e)) ''id'' = VString (''row_'' @ natToString (nextRowId e))"
  using buildNewRow_id [of rowData] by (simp add: addRow_def Let_def split_beta)

lemma generateRowId_fst: "fst (generateRowId row i n) = fst (generateRowId row i 0)"
  by (simp add: generateRowId_def Let_def split: option.splits)

lemma generateRowId_snd: "snd (generateRowId row i n) = max n (snd (generateRowId row i 0))"
  by (simp add: generateRowId_def Let_def split: option.splits)

lemma parseRowObjects_fst:
  "fst (parseRowObjects hs rs i n) = fst (parseRowObjects hs rs i 0)"
proof (induction rs arbitrary: i n)
  case Nil
  then show ?case by simp
next
  case (Cons row rs)
  have "fst (parseRowObjects hs rs (i + 1) (snd (generateRowId row i n))) =
        fst (parseRowObjects hs rs (i + 1) (snd (generateRowId row i 0)))"
    using Cons.IH [of "i + 1" "snd (generateRowId row i n)"]
          Cons.IH [of "i + 1" "snd (generateRowId row i 0)"] by simp
  then show ?case
    using generateRowId_fst [of row i n] by (simp add: split_beta Let_def)
qed

lemma parseRowObjects_snd:
  "snd (parseRowObjects hs rs i n) = max n (snd (parseRowObjects hs rs i 0))"
proof (induction rs arbitrary: i n)
  case Nil
  then show ?case by simp
next
  case (Cons row rs)
  let ?c = "snd (generateRowId row i 0)"
  have l: "snd (parseRowObjects hs rs (i + 1) (max n ?c)) =
           max (max n ?c) (snd (parseRowObjects hs rs (i + 1) 0))"
    by (rule Cons.IH)
  have r: "snd (parseRowObjects hs rs (i + 1) ?c) = max ?c (snd (parseRowObjects hs rs (i + 1) 0))"
    by (rule Cons.IH)
  show ?case
    using l r generateRowId_snd [of row i n] by (simp add: split_beta Let_def max.assoc)
qed

lemma parseTable_again:
  assumes "parseTable tbl n = Inr (t, n')"
  shows "parseTable tbl n' = Inr (t, n')"
proof -
  obtain hid where hid: "parseHiddenInputs (hiddenInputs tbl) [] = Inr hid"
    using assms by (auto simp: parseTable_def split: sum.splits)
  let ?typed = "typeHeaders (parseHeaders tbl) (collectColumns (length (parseHeaders tbl)) (dataRows tbl))"
  let ?p = "\<lambda>m. parseRowObjects ?typed (dataRows tbl) 0 m"
  from assms hid have n': "n' = snd (?p n)"
    by (auto simp: parseTable_def parseRows_def Let_def split_beta)
  have 1: "fst (?p n') = fst (?p n)"
    using parseRowObjects_fst [of ?typed "dataRows tbl" 0 n']
          parseRowObjects_fst [of ?typed "dataRows tbl" 0 n] by simp
  have 2: "snd (?p n') = snd (?p n)"
    using parseRowObjects_snd [of ?typed "dataRows tbl" 0 n']
          parseRowObjects_snd [of ?typed "dataRows tbl" 0 n] n' by simp
  show ?thesis
    using assms hid 1 2 n' by (auto simp: parseTable_def parseRows_def Let_def split_beta)
qed














lemma commitUpdate_ids:
  assumes "\<not> hasProp ''id'' R"
  shows "rowIds (commitUpdate i R eng) = rowIds eng"
proof -
  let ?rs = "rows (tableObject eng)"
  let ?f = "\<lambda>row. getProp row ''id''"
  have "map ?f (?rs[i := assign (?rs ! i) R]) = (map ?f ?rs)[i := ?f (?rs ! i)]"
    by (simp add: map_update getProp_assign_absent [OF assms])
  also have "\<dots> = map ?f ?rs"
    by (cases "i < length ?rs") (simp_all add: list_update_same_conv list_update_beyond)
  finally show ?thesis
    by (simp add: rowIds_def commitUpdate_def Let_def)
qed

lemma hasProp_iff_key: "hasProp k obj \<longleftrightarrow> k \<in> fst ` set obj"
  by (simp add: hasProp_def map_of_eq_None_iff)

lemma hasProp_rev: "hasProp k (rev obj) \<longleftrightarrow> hasProp k obj"
  by (simp add: hasProp_iff_key)

lemma getProp_assign:
  "getProp (assign tgt src) k = (if hasProp k src then getProp (rev src) k else getProp tgt k)"
proof (induction src arbitrary: tgt)
  case Nil
  then show ?case by (simp add: hasProp_def)
next
  case (Cons p src)
  obtain a b where p: "p = (a, b)" by (cases p)
  show ?case
  proof (cases "hasProp k src")
    case True
    then have "map_of (rev src) k \<noteq> None"
      using hasProp_rev [of k src] by (simp add: hasProp_def)
    then have "getProp (rev src @ [(a, b)]) k = getProp (rev src) k"
      by (auto simp: getProp_def map_add_def split: option.splits)
    with True Cons.IH [of "setProp a b tgt"] p show ?thesis
      by (simp add: hasProp_Cons)
  next
    case False
    then have "map_of (rev src) k = None"
      using hasProp_rev [of k src] by (simp add: hasProp_def)
    then have r: "getProp (rev src @ [(a, b)]) k = (if k = a then b else VUndefined)"
      by (auto simp: getProp_def map_add_def split: option.splits)
    have i: "getProp (assign (setProp a b tgt) src) k = getProp (setProp a b tgt) k"
      using False Cons.IH [of "setProp a b tgt"] by simp
    show ?thesis
    proof (cases "k = a")
      case True
      with False p r i show ?thesis
        by (simp add: hasProp_Cons getProp_setProp)
    next
      case ne: False
      then have "getProp tgt k = getProp (setProp a b tgt) k"
        by (simp add: getProp_setProp)
      with False ne p i show ?thesis
        by (simp add: hasProp_Cons)
    qed
  qed
qed

lemma getProp_rev_distinct:
  assumes "distinct (map fst obj)"
  shows "getProp (rev obj) k = getProp obj k"
proof -
  have "map_of (rev obj) = map_of obj"
    using assms by (intro map_of_inject_set [THEN iffD2]) (simp_all add: distinct_rev rev_map [symmetric])
  then show ?thesis by (simp add: getProp_def)
qed

lemma commitUpdate_rows:
  "rows (tableObject (commitUpdate i R eng)) =
     (rows (tableObject eng))[i := assign (rows (tableObject eng) ! i) R]"
  by (simp add: commitUpdate_def Let_def)

lemma commitUpdate_rowIds:
  assumes "i < length (rows (tableObject eng))"
  shows "rowIds (commitUpdate i R eng) =
           (if hasProp ''id'' R then (rowIds eng)[i := getProp (rev R) ''id''] else rowIds eng)"
proof -
  let ?rs = "rows (tableObject eng)"
  let ?f = "\<lambda>row. getProp row ''id''"
  have "map ?f (?rs[i := assign (?rs ! i) R]) = (map ?f ?rs)[i := ?f (assign (?rs ! i) R)]"
    by (simp add: map_update)
  moreover have "(map ?f ?rs)[i := ?f (?rs ! i)] = map ?f ?rs"
    using assms by (simp add: list_update_same_conv)
  ultimately show ?thesis
    by (simp add: rowIds_def commitUpdate_rows getProp_assign)
qed


section \<open>The claims\<close>

text \<open>
  C1. For every sequence of column texts, \<open>detectColumnType\<close> gives what the ordered
  decision table gives, the first rule that applies winning: no value gives Text; a value
  with \<open><\<close> or \<open>>\<close> or of more than 100 characters gives Raw; all values empty or, case
  ignored, \<open>true\<close> or \<open>false\<close> gives Boolean; the non-empty values all numeric gives
  Decimal when one of them has a point and Integer otherwise; anything else gives Text.
  The five columns of the specification get Integer, Decimal, Boolean, Raw and Text.
\<close>

theorem detectColumnType_decision_table:
  "detectColumnType vals = inferType_spec vals \<and>
   detectColumnType [''1'', ''2'', ''3''] = TNumber \<and>
   detectColumnType [''1.5'', ''2''] = TDecimal \<and>
   detectColumnType [''true'', ''false'', []] = TBoolean \<and>
   detectColumnType [''<b>x</b>''] = TFree \<and>
   detectColumnType [''a'', ''1''] = TString"
proof -
  have c: "isComplex = (\<lambda>v. includesStr v CHR ''<'' \<or> includesStr v CHR ''>'' \<or> length v > 100)"
    by (rule ext) (simp add: isComplex_def includesStr_def)
  have b: "isBooleanText = (\<lambda>v. v = [] \<or> toLowerCase v \<in> set booleanValues)"
    by (rule ext) (simp add: isBooleanText_def booleanValues_def)
  have n: "parsesAsNumber = (\<lambda>v. \<not> isNaN_Number v)"
    by (rule ext) (simp add: parsesAsNumber_def)
  have d: "(\<lambda>v. CHR ''.'' \<in> set v) = (\<lambda>v. includesStr v CHR ''.'')"
    by (rule ext) (simp add: includesStr_def)
  have table: "detectColumnType vals = inferType_spec vals"
    unfolding detectColumnType_def inferType_spec_def c b n d Let_def
    by simp
  have e1: "detectColumnType [''1'', ''2'', ''3''] = TNumber" by code_simp
  have e2: "detectColumnType [''1.5'', ''2''] = TDecimal" by code_simp
  have e3: "detectColumnType [''true'', ''false'', []] = TBoolean" by code_simp
  have e4: "detectColumnType [''<b>x</b>''] = TFree" by code_simp
  have e5: "detectColumnType [''a'', ''1''] = TString" by code_simp
  from table e1 e2 e3 e4 e5 show ?thesis by blast
qed

text \<open>
  C2. The row parser reads the rows of the first \<open>tbody\<close> and then drops one row
  whenever the table has a header, also when that header sits in a \<open>thead\<close> and is not
  among the rows read. On the table with the header \<open>Name\<close> in a \<open>thead\<close> and the rows
  \<open>Alice\<close> and \<open>Bob\<close> in a \<open>tbody\<close> the model gets the single row \<open>Bob\<close>: the first row
  of the \<open>tbody\<close> is no data row of the model.
\<close>

theorem parse_skips_first_body_row_under_thead:
  "treeTexts staffTable = [[''Name''], [''Alice''], [''Bob'']] \<and>
   construct (docOf staffTable) ''staff'' = Inr staffEngine \<and>
   rows (tableObject staffEngine) = [[(''id'', VString ''row_0''), (''name'', VString ''Bob'')]]"
  by code_simp

text \<open>
  C3. The renderer finds the fragment of a row at the row's model index plus one when
  \<open>hasHeaderRow\<close> holds of the tree as it is at the time of the call. On the table of the
  two rows \<open>1\<close> and \<open>b\<close>, parsed without a header, the update of row \<open>row_0\<close> to the text
  \<open>a\<close> succeeds and makes the first row look like a header; the following delete of
  \<open>row_0\<close> succeeds, removes \<open>row_0\<close> from the model and the fragment of \<open>row_1\<close> from the
  tree: the model holds \<open>row_1\<close> with \<open>b\<close>, the tree holds the row \<open>a\<close>. On the table with
  a \<open>thead\<close>, the update of the model's row 0 succeeds and rewrites the second row of the
  \<open>tbody\<close>, and the model has one row where the tree has two data rows.
\<close>

theorem positional_rendering_diverges:
  "construct (docOf notesTable) ''notes'' = Inr notesEngine \<and>
   fst (updateRow ''row_0'' [(''column1'', VString ''a'')] notesEngine) \<and>
   treeTexts (tableElement notesUpdated) = [[''a''], [''b'']] \<and>
   fst (deleteRow ''row_0'' notesUpdated) \<and>
   rows (tableObject notesDeleted) = [[(''id'', VString ''row_1''), (''column1'', VString ''b'')]] \<and>
   treeTexts (tableElement notesDeleted) = [[''a'']] \<and>
   construct (docOf staffTable) ''staff'' = Inr staffEngine \<and>
   fst (updateRow ''row_0'' [(''name'', VString ''Robert'')] staffEngine) \<and>
   rows (tableObject (snd (updateRow ''row_0'' [(''name'', VString ''Robert'')] staffEngine))) =
     [[(''id'', VString ''row_0''), (''name'', VString ''Robert'')]] \<and>
   treeTexts (tableElement (snd (updateRow ''row_0'' [(''name'', VString ''Robert'')] staffEngine))) =
     [[''Name''], [''Alice''], [''Robert'']]"
  by code_simp

text \<open>
  C4, as the code has it. An update assigns every key of the update set to the row, the
  key \<open>id\<close> included, and never makes up an identity of its own. The update set that is
  applied is the \<open>updates\<close> argument for \<open>updateRow\<close> and for \<open>updateRowAsync\<close> without a
  decision function, and the result of the decision function otherwise, whatever
  \<open>updates\<close> holds then. When the applied set has no key \<open>id\<close>, the identities of all rows
  of the model are what they were before the call, whether the call succeeds or not. When
  the row is found at index \<open>i\<close> and the applied set has the key \<open>id\<close>, the call succeeds
  and the identity of row \<open>i\<close> becomes the value the set gives for \<open>id\<close> (the last one,
  should the list name the key twice); the other identities stay.
\<close>

theorem update_keeps_identity_without_id_key:
  "(\<not> hasProp ''id'' updates \<longrightarrow>
      rowIds (snd (updateRow ident updates eng)) = rowIds eng \<and>
      rowIds (snd (updateRowAsync ident updates None eng)) = rowIds eng) \<and>
   ((\<forall>row result. decide row updates = Some result \<longrightarrow> \<not> hasProp ''id'' result) \<longrightarrow>
      rowIds (snd (updateRowAsync ident updates (Some decide) eng)) = rowIds eng) \<and>
   (rowIndexOf ident (rows (tableObject eng)) = Some i \<and> hasProp ''id'' updates \<longrightarrow>
      fst (updateRow ident updates eng) \<and>
      rowIds (snd (updateRow ident updates eng)) = (rowIds eng)[i := getProp (rev updates) ''id''] \<and>
      fst (updateRowAsync ident updates None eng) \<and>
      rowIds (snd (updateRowAsync ident updates None eng)) =
        (rowIds eng)[i := getProp (rev updates) ''id'']) \<and>
   (rowIndexOf ident (rows (tableObject eng)) = Some i \<and>
    decide (rows (tableObject eng) ! i) updates = Some result \<longrightarrow>
      fst (updateRowAsync ident updates (Some decide) eng) \<and>
      rowIds (snd (updateRowAsync ident updates (Some decide) eng)) =
        (if hasProp ''id'' result then (rowIds eng)[i := getProp (rev result) ''id'']
         else rowIds eng))"
proof -
  have 1: "rowIds (snd (updateRow ident updates eng)) = rowIds eng" if "\<not> hasProp ''id'' updates"
    using commitUpdate_ids [OF that] by (simp add: updateRow_def split: option.splits)
  have 2: "rowIds (snd (updateRowAsync ident updates None eng)) = rowIds eng"
    if "\<not> hasProp ''id'' updates"
    using commitUpdate_ids [OF that] by (simp add: updateRowAsync_def split: option.splits)
  have 3: "rowIds (snd (updateRowAsync ident updates (Some decide) eng)) = rowIds eng"
    if "\<forall>row result. decide row updates = Some result \<longrightarrow> \<not> hasProp ''id'' result"
    using commitUpdate_ids that by (auto simp: updateRowAsync_def split: option.splits)
  have 4: "fst (updateRow ident updates eng) \<and>
           rowIds (snd (updateRow ident updates eng)) = (rowIds eng)[i := getProp (rev updates) ''id''] \<and>
           fst (updateRowAsync ident updates None eng) \<and>
           rowIds (snd (updateRowAsync ident updates None eng)) =
             (rowIds eng)[i := getProp (rev updates) ''id'']"
    if "rowIndexOf ident (rows (tableObject eng)) = Some i" and "hasProp ''id'' updates"
    using that commitUpdate_rowIds [OF rowIndexOf_Some(1) [OF that(1)], of updates]
    by (simp add: updateRow_def updateRowAsync_def)
  have 5: "fst (updateRowAsync ident updates (Some decide) eng) \<and>
           rowIds (snd (updateRowAsync ident updates (Some decide) eng)) =
             (if hasProp ''id'' result then (rowIds eng)[i := getProp (rev result) ''id'']
              else rowIds eng)"
    if "rowIndexOf ident (rows (tableObject eng)) = Some i"
      and "decide (rows (tableObject eng) ! i) updates = Some result"
    using that commitUpdate_rowIds [OF rowIndexOf_Some(1) [OF that(1)], of result]
    by (simp add: updateRowAsync_def)
  from 1 2 3 4 5 show ?thesis by blast
qed

theorem update_keeps_identity_without_id_key_witness:
  "rowIds (snd (updateRow ''row_0'' [(''age'', VNumber (Fin 31))] peopleEngine)) = rowIds peopleEngine \<and>
   rowIds (snd (updateRowAsync ''row_0'' [(''age'', VNumber (Fin 31))] None peopleEngine)) =
     rowIds peopleEngine \<and>
   rowIds (snd (updateRowAsync ''row_0'' [(''id'', VString ''ann''), (''age'', VNumber (Fin 31))]
       (Some (\<lambda>row updates. Some [(''name'', VString ''Alicia'')])) peopleEngine)) =
     rowIds peopleEngine \<and>
   fst (updateRow ''row_0'' [(''id'', VString ''alice'')] peopleEngine) \<and>
   rowIds (snd (updateRow ''row_0'' [(''id'', VString ''alice'')] peopleEngine)) =
     (rowIds peopleEngine)[0 := getProp (rev [(''id'', VString ''alice'')]) ''id''] \<and>
   fst (updateRowAsync ''row_1'' [(''age'', VNumber (Fin 26))]
       (Some (\<lambda>row updates. Some ((''id'', VString ''bob'') # updates))) peopleEngine) \<and>
   rowIds (snd (updateRowAsync ''row_1'' [(''age'', VNumber (Fin 26))]
       (Some (\<lambda>row updates. Some ((''id'', VString ''bob'') # updates))) peopleEngine)) =
     (if hasProp ''id'' [(''id'', VString ''bob''), (''age'', VNumber (Fin 26))]
      then (rowIds peopleEngine)[1 := getProp (rev [(''id'', VString ''bob''), (''age'', VNumber (Fin 26))]) ''id'']
      else rowIds peopleEngine) \<and>
   (rowIds peopleEngine)[0 := getProp (rev [(''id'', VString ''alice'')]) ''id''] =
     [VString ''alice'', VString ''row_1'']"
proof -
  have a: "\<not> hasProp ''id'' [(''age'', VNumber (Fin 31))]" by code_simp
  have b: "\<forall>row result.
             (\<lambda>row updates. Some [(''name'', VString ''Alicia'')]) row
                [(''id'', VString ''ann''), (''age'', VNumber (Fin 31))] = Some result \<longrightarrow>
             \<not> hasProp ''id'' result"
    by (auto simp: hasProp_def)
  have c: "rowIndexOf ''row_0'' (rows (tableObject peopleEngine)) = Some 0" by code_simp
  have d: "hasProp ''id'' [(''id'', VString ''alice'')]" by code_simp
  have e: "rowIndexOf ''row_1'' (rows (tableObject peopleEngine)) = Some 1" by code_simp
  have f: "(\<lambda>row updates. Some ((''id'', VString ''bob'') # updates))
             (rows (tableObject peopleEngine) ! 1) [(''age'', VNumber (Fin 26))] =
           Some [(''id'', VString ''bob''), (''age'', VNumber (Fin 26))]"
    by simp
  have g: "(rowIds peopleEngine)[0 := getProp (rev [(''id'', VString ''alice'')]) ''id''] =
             [VString ''alice'', VString ''row_1'']"
    by code_simp
  show ?thesis
    using update_keeps_identity_without_id_key
            [where updates = "[(''age'', VNumber (Fin 31))]" and ident = "''row_0''"
                 and eng = peopleEngine]
          update_keeps_identity_without_id_key
            [where updates = "[(''id'', VString ''ann''), (''age'', VNumber (Fin 31))]"
                 and ident = "''row_0''" and eng = peopleEngine
                 and decide = "\<lambda>row updates. Some [(''name'', VString ''Alicia'')]"]
          update_keeps_identity_without_id_key
            [where updates = "[(''id'', VString ''alice'')]" and ident = "''row_0''"
                 and eng = peopleEngine and i = 0]
          update_keeps_identity_without_id_key
            [where updates = "[(''age'', VNumber (Fin 26))]" and ident = "''row_1''"
                 and eng = peopleEngine and i = 1
                 and decide = "\<lambda>row updates. Some ((''id'', VString ''bob'') # updates)"
                 and result = "[(''id'', VString ''bob''), (''age'', VNumber (Fin 26))]"]
          a b c d e f g
    by blast
qed

text \<open>
  C4, as it is stated, fails: an update set with the key \<open>id\<close> gives the row a new
  identity. The update of \<open>row_0\<close> with \<open>{id: "alice"}\<close> succeeds, and the row answers to
  \<open>alice\<close> afterwards.
\<close>

theorem update_with_id_key_changes_identity:
  "updateRow ''row_0'' [(''id'', VString ''alice'')] peopleEngine =
     (True, commitUpdate 0 [(''id'', VString ''alice'')] peopleEngine) \<and>
   rowIds peopleEngine = [VString ''row_0'', VString ''row_1''] \<and>
   rowIds (snd (updateRow ''row_0'' [(''id'', VString ''alice'')] peopleEngine)) =
     [VString ''alice'', VString ''row_1'']"
  by code_simp




text \<open>
  C6. When the row is found and the decision function of \<open>updateRowAsync\<close> returns an
  update set \<open>R\<close> for the proposal \<open>U\<close>, the call succeeds and its result is the result
  of \<open>updateRow\<close> with \<open>R\<close>. In the model no row is added or removed and every other row
  is untouched; in the row found, every key of \<open>R\<close> has the value \<open>R\<close> gives it (the
  last one, should the list name the key twice) and every key that \<open>R\<close> lacks has its
  old value, whatever \<open>U\<close> proposed for it. The tree is the old tree with that row
  rendered into it.
\<close>

theorem updateRowAsync_result_replaces_updates:
  assumes "rowIndexOf ident (rows (tableObject eng)) = Some i"
      and "decide (rows (tableObject eng) ! i) U = Some R"
    shows "updateRowAsync ident U (Some decide) eng = (True, commitUpdate i R eng) \<and>
           updateRow ident R eng = (True, commitUpdate i R eng) \<and>
           rows (tableObject (commitUpdate i R eng)) ! i = assign (rows (tableObject eng) ! i) R \<and>
           (\<forall>k. \<not> hasProp k R \<longrightarrow>
              getProp (assign (rows (tableObject eng) ! i) R) k = getProp (rows (tableObject eng) ! i) k) \<and>
           length (rows (tableObject (snd (updateRowAsync ident U (Some decide) eng)))) =
             length (rows (tableObject eng)) \<and>
           (\<forall>j. j \<noteq> i \<longrightarrow>
              rows (tableObject (snd (updateRowAsync ident U (Some decide) eng))) ! j =
              rows (tableObject eng) ! j) \<and>
           (\<forall>k. getProp (rows (tableObject (snd (updateRowAsync ident U (Some decide) eng))) ! i) k =
                  (if hasProp k R then getProp (rev R) k else getProp (rows (tableObject eng) ! i) k)) \<and>
           (distinct (map fst R) \<longrightarrow>
              (\<forall>k. hasProp k R \<longrightarrow>
                 getProp (rows (tableObject (snd (updateRowAsync ident U (Some decide) eng))) ! i) k =
                 getProp R k)) \<and>
           tableElement (snd (updateRowAsync ident U (Some decide) eng)) =
             updateRowInDOM (headers (tableObject eng))
               (rows (tableObject (snd (updateRowAsync ident U (Some decide) eng))) ! i) i
               (tableElement eng)"
proof -
  let ?rs = "rows (tableObject eng)"
  have len: "i < length ?rs"
    by (rule rowIndexOf_Some(1) [OF assms(1)])
  have 1: "updateRowAsync ident U (Some decide) eng = (True, commitUpdate i R eng)"
    using assms by (simp add: updateRowAsync_def)
  have 2: "updateRow ident R eng = (True, commitUpdate i R eng)"
    using assms(1) by (simp add: updateRow_def)
  have 3: "rows (tableObject (commitUpdate i R eng)) ! i = assign (?rs ! i) R"
    using len by (simp add: commitUpdate_rows)
  have 4: "\<forall>k. \<not> hasProp k R \<longrightarrow> getProp (assign (?rs ! i) R) k = getProp (?rs ! i) k"
    by (simp add: getProp_assign)
  have 5: "length (rows (tableObject (commitUpdate i R eng))) = length ?rs"
    by (simp add: commitUpdate_rows)
  have 6: "\<forall>j. j \<noteq> i \<longrightarrow> rows (tableObject (commitUpdate i R eng)) ! j = ?rs ! j"
    by (simp add: commitUpdate_rows)
  have 7: "\<forall>k. getProp (rows (tableObject (commitUpdate i R eng)) ! i) k =
                (if hasProp k R then getProp (rev R) k else getProp (?rs ! i) k)"
    using 3 by (simp add: getProp_assign)
  have 8: "distinct (map fst R) \<longrightarrow>
             (\<forall>k. hasProp k R \<longrightarrow> getProp (rows (tableObject (commitUpdate i R eng)) ! i) k = getProp R k)"
    using 7 by (simp add: getProp_rev_distinct)
  have 9: "tableElement (commitUpdate i R eng) =
             updateRowInDOM (headers (tableObject eng))
               (rows (tableObject (commitUpdate i R eng)) ! i) i (tableElement eng)"
    using 3 by (simp add: commitUpdate_def Let_def)
  show ?thesis
    unfolding 1 snd_conv using 2 3 4 5 6 7 8 9 by blast
qed

theorem updateRowAsync_result_replaces_updates_witness:
  "updateRowAsync ''row_0'' [(''name'', VString ''Ann''), (''age'', VNumber (Fin 31))]
     (Some (\<lambda>row updates. Some [(''name'', VString ''Anna'')])) peopleEngine =
     (True, commitUpdate 0 [(''name'', VString ''Anna'')] peopleEngine) \<and>
   updateRow ''row_0'' [(''name'', VString ''Anna'')] peopleEngine =
     (True, commitUpdate 0 [(''name'', VString ''Anna'')] peopleEngine) \<and>
   getProp (rows (tableObject (snd (updateRowAsync ''row_0''
       [(''name'', VString ''Ann''), (''age'', VNumber (Fin 31))]
       (Some (\<lambda>row updates. Some [(''name'', VString ''Anna'')])) peopleEngine))) ! 0) ''name'' =
     getProp [(''name'', VString ''Anna'')] ''name'' \<and>
   getProp (rows (tableObject (snd (updateRowAsync ''row_0''
       [(''name'', VString ''Ann''), (''age'', VNumber (Fin 31))]
       (Some (\<lambda>row updates. Some [(''name'', VString ''Anna'')])) peopleEngine))) ! 0) ''age'' =
     (if hasProp ''age'' [(''name'', VString ''Anna'')]
      then getProp (rev [(''name'', VString ''Anna'')]) ''age''
      else getProp (rows (tableObject peopleEngine) ! 0) ''age'') \<and>
   rows (tableObject (snd (updateRowAsync ''row_0''
       [(''name'', VString ''Ann''), (''age'', VNumber (Fin 31))]
       (Some (\<lambda>row updates. Some [(''name'', VString ''Anna'')])) peopleEngine))) ! 1 =
     rows (tableObject peopleEngine) ! 1 \<and>
   getProp [(''name'', VString ''Anna'')] ''name'' = VString ''Anna'' \<and>
   getProp (rows (tableObject peopleEngine) ! 0) ''age'' = VNumber (Fin 30) \<and>
   \<not> hasProp ''age'' [(''name'', VString ''Anna'')]"
proof -
  have h: "rowIndexOf ''row_0'' (rows (tableObject peopleEngine)) = Some 0"
    by code_simp
  have d: "(\<lambda>row updates. Some [(''name'', VString ''Anna'')])
             (rows (tableObject peopleEngine) ! 0)
             [(''name'', VString ''Ann''), (''age'', VNumber (Fin 31))] =
           Some [(''name'', VString ''Anna'')]"
    by simp
  have k: "\<not> hasProp ''age'' [(''name'', VString ''Anna'')]"
    by code_simp
  have n: "hasProp ''name'' [(''name'', VString ''Anna'')]"
    by code_simp
  have u: "distinct (map fst [(''name'', VString ''Anna'')])"
    by simp
  have v: "getProp (rows (tableObject peopleEngine) ! 0) ''age'' = VNumber (Fin 30)"
    by code_simp
  have w: "getProp [(''name'', VString ''Anna'')] ''name'' = VString ''Anna''"
    by code_simp
  have o: "(1::nat) \<noteq> 0" by simp
  show ?thesis
    using updateRowAsync_result_replaces_updates
            [where decide = "\<lambda>row updates. Some [(''name'', VString ''Anna'')]", OF h d] k n u v w o
    by blast
qed

text \<open>
  C7. When the row is found and the decision function of \<open>deleteRowAsync\<close> answers false
  for it, the call returns false and the engine (model, tree and counter) is what it was;
  the model still has a row of that identity.
\<close>

theorem deleteRowAsync_cancel_unchanged:
  assumes "rowIndexOf ident (rows (tableObject eng)) = Some i"
      and "\<not> beforeDelete (rows (tableObject eng) ! i)"
    shows "deleteRowAsync ident (Some beforeDelete) eng = (False, eng) \<and>
           VString ident \<in> set (rowIds (snd (deleteRowAsync ident (Some beforeDelete) eng)))"
proof -
  have 1: "deleteRowAsync ident (Some beforeDelete) eng = (False, eng)"
    using assms by (simp add: deleteRowAsync_def)
  have "i < length (rows (tableObject eng))"
    and "getProp (rows (tableObject eng) ! i) ''id'' = VString ident"
    by (rule rowIndexOf_Some [OF assms(1)])+
  then have "VString ident \<in> set (rowIds eng)"
    unfolding rowIds_def by (metis (mono_tags, lifting) length_map nth_map nth_mem)
  with 1 show ?thesis by simp
qed

theorem deleteRowAsync_cancel_unchanged_witness:
  "deleteRowAsync ''row_1'' (Some (\<lambda>row. False)) peopleEngine = (False, peopleEngine) \<and>
   VString ''row_1'' \<in> set (rowIds (snd (deleteRowAsync ''row_1'' (Some (\<lambda>row. False)) peopleEngine)))"
proof -
  have h: "rowIndexOf ''row_1'' (rows (tableObject peopleEngine)) = Some 1"
    by code_simp
  show ?thesis
    by (rule deleteRowAsync_cancel_unchanged [OF h]) simp
qed

text \<open>
  C8. When no row of the model has the identity asked for, \<open>updateRow\<close> returns false and
  the engine is what it was: the rows of the model and the tree are unchanged. The result
  is a boolean; the function has no way to raise.
\<close>

theorem updateRow_missing_id_unchanged:
  assumes "VString ident \<notin> set (rowIds eng)"
  shows "updateRow ident updates eng = (False, eng)"
proof -
  have "\<not> list_ex (\<lambda>row. getProp row ''id'' = VString ident) (rows (tableObject eng))"
    using assms by (force simp: list_ex_iff rowIds_def)
  then have "rowIndexOf ident (rows (tableObject eng)) = None"
    by (simp add: rowIndexOf_def findIndex_None_iff)
  then show ?thesis by (simp add: updateRow_def)
qed

theorem updateRow_missing_id_unchanged_witness:
  "updateRow ''missing-id'' [(''name'', VString ''Carol'')] peopleEngine = (False, peopleEngine)"
proof -
  have h: "VString ''missing-id'' \<notin> set (rowIds peopleEngine)"
    by code_simp
  show ?thesis by (rule updateRow_missing_id_unchanged [OF h])
qed

text \<open>
  C9. A refresh that succeeds leaves an engine on which a second refresh changes
  nothing: the second parse gives the same table object (and the same counter). A refresh
  that fails leaves the engine as it was, so the second one fails in the same way.
\<close>

theorem refresh_idempotent:
  assumes "refresh eng = Inr e1"
  shows "refresh e1 = Inr e1"
proof -
  from assms obtain t n' where p: "parseTable (tableElement eng) (nextRowId eng) = Inr (t, n')"
    and e1: "e1 = eng\<lparr>tableObject := t, nextRowId := n'\<rparr>"
    by (auto simp: refresh_def split: sum.splits)
  from parseTable_again [OF p] e1 show ?thesis
    by (simp add: refresh_def)
qed

theorem refresh_idempotent_witness:
  "refresh staleEngine = Inr peopleEngine \<and> refresh peopleEngine = Inr peopleEngine"
proof -
  have h: "refresh staleEngine = Inr peopleEngine" by code_simp
  from h refresh_idempotent [OF h] show ?thesis by blast
qed

text \<open>
  C10. When \<open>addRowAsync\<close> is called with no truthy \<open>id\<close> and its decision function
  cancels, the result is no row, the model and the tree are unchanged, and the counter
  stays advanced by one: the next row added without an \<open>id\<close> key is named after the
  counter plus one, where without the cancelled call it would be named after the counter.
\<close>

theorem addRowAsync_cancel_consumes_counter:
  assumes "\<not> truthy (getProp rowData ''id'')"
      and "decide (fst (buildNewRow rowData (headers (tableObject eng)) (nextRowId eng))) = None"
      and "\<not> hasProp ''id'' later"
    shows "addRowAsync rowData (Some decide) eng = (None, eng\<lparr>nextRowId := nextRowId eng + 1\<rparr>) \<and>
           getProp (fst (addRow later (eng\<lparr>nextRowId := nextRowId eng + 1\<rparr>))) ''id'' =
             VString (''row_'' @ natToString (nextRowId eng + 1)) \<and>
           getProp (fst (addRow later eng)) ''id'' = VString (''row_'' @ natToString (nextRowId eng))"
proof -
  have c: "snd (buildNewRow rowData (headers (tableObject eng)) (nextRowId eng)) = nextRowId eng + 1"
    using assms(1) by (simp add: buildNewRow_counter)
  have 1: "addRowAsync rowData (Some decide) eng = (None, eng\<lparr>nextRowId := nextRowId eng + 1\<rparr>)"
    using assms(2) c by (simp add: addRowAsync_def Let_def split_beta)
  show ?thesis
    using 1 addRow_id [OF assms(3), of eng]
          addRow_id [OF assms(3), of "eng\<lparr>nextRowId := nextRowId eng + 1\<rparr>"]
    by simp
qed

theorem addRowAsync_cancel_consumes_counter_witness:
  "addRowAsync [(''name'', VString ''Carol'')] (Some (\<lambda>row. None)) peopleEngine =
     (None, peopleEngine\<lparr>nextRowId := nextRowId peopleEngine + 1\<rparr>) \<and>
   getProp (fst (addRow [(''name'', VString ''Dave'')]
        (peopleEngine\<lparr>nextRowId := nextRowId peopleEngine + 1\<rparr>))) ''id'' =
     VString (''row_'' @ natToString (nextRowId peopleEngine + 1)) \<and>
   getProp (fst (addRow [(''name'', VString ''Dave'')] peopleEngine)) ''id'' =
     VString (''row_'' @ natToString (nextRowId peopleEngine)) \<and>
   ''row_'' @ natToString (nextRowId peopleEngine + 1) = ''row_3'' \<and>
   ''row_'' @ natToString (nextRowId peopleEngine) = ''row_2''"
proof -
  have a: "\<not> truthy (getProp [(''name'', VString ''Carol'')] ''id'')"
    by code_simp
  have b: "(\<lambda>row. None) (fst (buildNewRow [(''name'', VString ''Carol'')]
              (headers (tableObject peopleEngine)) (nextRowId peopleEngine))) = None"
    by simp
  have c: "\<not> hasProp ''id'' [(''name'', VString ''Dave'')]"
    by code_simp
  have d: "''row_'' @ natToString (nextRowId peopleEngine + 1) = ''row_3''"
    by code_simp
  have e: "''row_'' @ natToString (nextRowId peopleEngine) = ''row_2''"
    by code_simp
  show ?thesis
    using addRowAsync_cancel_consumes_counter [where decide = "\<lambda>row. None", OF a b c] d e
    by blast
qed


end
